theory Spec2Isabelle
  imports Main "HOL-Library.Sublist"
begin

section \<open>Python string operations used by the client\<close>

text \<open>
  A Python string is modelled as \<open>string\<close>, one \<open>char\<close> per code point, for the code
  points below 256 (Latin-1, which contains ASCII). The white space class and the case
  mappings below are those of Python's \<open>str\<close> on that range. Lower-casing stays in
  the range. Upper-casing leaves it for three letters, so its result is a list of
  \<open>codepoint\<close>s.
\<close>

definition latin1_uppercase :: string where
  "latin1_uppercase =
     ''ABCDEFGHIJKLMNOPQRSTUVWXYZ'' @
     [CHR 0xC0, CHR 0xC1, CHR 0xC2, CHR 0xC3, CHR 0xC4, CHR 0xC5, CHR 0xC6, CHR 0xC7,
      CHR 0xC8, CHR 0xC9, CHR 0xCA, CHR 0xCB, CHR 0xCC, CHR 0xCD, CHR 0xCE, CHR 0xCF,
      CHR 0xD0, CHR 0xD1, CHR 0xD2, CHR 0xD3, CHR 0xD4, CHR 0xD5, CHR 0xD6, CHR 0xD8,
      CHR 0xD9, CHR 0xDA, CHR 0xDB, CHR 0xDC, CHR 0xDD, CHR 0xDE]"

definition latin1_lowercase :: string where
  "latin1_lowercase =
     ''abcdefghijklmnopqrstuvwxyz'' @
     [CHR 0xE0, CHR 0xE1, CHR 0xE2, CHR 0xE3, CHR 0xE4, CHR 0xE5, CHR 0xE6, CHR 0xE7,
      CHR 0xE8, CHR 0xE9, CHR 0xEA, CHR 0xEB, CHR 0xEC, CHR 0xED, CHR 0xEE, CHR 0xEF,
      CHR 0xF0, CHR 0xF1, CHR 0xF2, CHR 0xF3, CHR 0xF4, CHR 0xF5, CHR 0xF6, CHR 0xF8,
      CHR 0xF9, CHR 0xFA, CHR 0xFB, CHR 0xFC, CHR 0xFD, CHR 0xFE]"

text \<open>\<open>str.lower\<close> on one character: the 26 letters, and 0xC0 to 0xDE without the
  multiplication sign 0xD7, move up by 32.\<close>

definition chr_lower :: "char \<Rightarrow> char" where
  "chr_lower c =
     (case map_of (zip latin1_uppercase latin1_lowercase) c of Some d \<Rightarrow> d | None \<Rightarrow> c)"

text \<open>
  \<open>str.upper\<close> on one character: the inverse table, and the three letters whose capital
  is not below 256: the sharp s 0xDF becomes "SS", the micro sign 0xB5 becomes the Greek
  capital mu U+039C, and y with diaeresis 0xFF becomes U+0178.
\<close>

datatype codepoint = Latin1 char | U039C | U0178

definition chr_upper :: "char \<Rightarrow> codepoint list" where
  "chr_upper c =
     (if c = CHR 0xDF then [Latin1 CHR ''S'', Latin1 CHR ''S'']
      else if c = CHR 0xB5 then [U039C]
      else if c = CHR 0xFF then [U0178]
      else (case map_of (zip latin1_lowercase latin1_uppercase) c of
              Some d \<Rightarrow> [Latin1 d]
            | None \<Rightarrow> [Latin1 c]))"

text \<open>\<open>str.isspace\<close> below 256: tab, line feed, vertical tab, form feed, carriage
  return, the four separators 0x1C to 0x1F, the space, the next-line control 0x85 and
  the no-break space 0xA0.\<close>

definition latin1_whitespace :: string where
  "latin1_whitespace =
     [CHR 0x09, CHR 0x0A, CHR 0x0B, CHR 0x0C, CHR 0x0D,
      CHR 0x1C, CHR 0x1D, CHR 0x1E, CHR 0x1F, CHR 0x20, CHR 0x85, CHR 0xA0]"

definition chr_isspace :: "char \<Rightarrow> bool" where
  "chr_isspace c = (c \<in> set latin1_whitespace)"

definition str_lower :: "string \<Rightarrow> string" where
  "str_lower s = map chr_lower s"

definition str_upper :: "string \<Rightarrow> codepoint list" where
  "str_upper s = concat (map chr_upper s)"

text \<open>\<open>s.strip()\<close>: white space removed at both ends.\<close>

definition str_strip :: "string \<Rightarrow> string" where
  "str_strip s = rev (dropWhile chr_isspace (rev (dropWhile chr_isspace s)))"

text \<open>\<open>sub in s\<close>: \<open>sub\<close> occurs in \<open>s\<close> as a contiguous substring.\<close>

fun str_contains :: "string \<Rightarrow> string \<Rightarrow> bool" where
  "str_contains sub [] = (sub = [])"
| "str_contains sub (c # cs) = (prefix sub (c # cs) \<or> str_contains sub cs)"

text \<open>
  \<open>s.split(sep)\<close> for a non-empty separator: the string is scanned from the left, each
  occurrence of \<open>sep\<close> found closes the current piece and the scan goes on behind it.
  The second argument is the current piece, reversed. (Python raises on an empty
  separator; the client only passes the two trigger phrases.)
\<close>

function str_split_from :: "string \<Rightarrow> string \<Rightarrow> string \<Rightarrow> string list" where
  "str_split_from sep acc [] = [rev acc]"
| "str_split_from sep acc (c # cs) =
     (if sep \<noteq> [] \<and> prefix sep (c # cs)
      then rev acc # str_split_from sep [] (drop (length sep) (c # cs))
      else str_split_from sep (c # acc) cs)"
  by pat_completeness auto
termination
  by (relation "measure (\<lambda>(sep, acc, s). length s)") auto

definition str_split :: "string \<Rightarrow> string \<Rightarrow> string list" where
  "str_split s sep = str_split_from sep [] s"

text \<open>\<open>s.split()\<close>: the maximal runs of characters that are not white space.\<close>

fun str_words_from :: "string \<Rightarrow> string \<Rightarrow> string list" where
  "str_words_from acc [] = (if acc = [] then [] else [rev acc])"
| "str_words_from acc (c # cs) =
     (if chr_isspace c
      then (if acc = [] then str_words_from [] cs else rev acc # str_words_from [] cs)
      else str_words_from (c # acc) cs)"

definition str_words :: "string \<Rightarrow> string list" where
  "str_words s = str_words_from [] s"

text \<open>\<open>sep.join(xs)\<close>.\<close>

fun str_join :: "string \<Rightarrow> string list \<Rightarrow> string" where
  "str_join sep [] = []"
| "str_join sep [x] = x"
| "str_join sep (x # y # ys) = x @ sep @ str_join sep (y # ys)"


section \<open>Exceptions, collaborators and the client's state\<close>

text \<open>
  An exception is its class, as far as the handlers of the client tell classes apart,
  and the text \<open>str(e)\<close>. \<open>ValueError\<close> and \<open>OtherException\<close> are the classes derived
  from \<open>Exception\<close>; \<open>SystemExit\<close> and \<open>OtherBaseException\<close> (\<open>KeyboardInterrupt\<close>,
  \<open>asyncio.CancelledError\<close>) derive from \<open>BaseException\<close> only.
\<close>

datatype exn_class = ValueError | OtherException | SystemExit | OtherBaseException

datatype exn = Exn exn_class string

fun exn_str :: "exn \<Rightarrow> string" where
  "exn_str (Exn k m) = m"

fun isinstance_ValueError :: "exn \<Rightarrow> bool" where
  "isinstance_ValueError (Exn k m) = (k = ValueError)"

fun isinstance_Exception :: "exn \<Rightarrow> bool" where
  "isinstance_Exception (Exn k m) = (k = ValueError \<or> k = OtherException)"

text \<open>Tool parameters: a dictionary from parameter names to strings or floats, in
  insertion order. The only string passed is an upper-cased one, hence a list of
  code points. The type \<open>'f\<close> stands for Python's \<open>float\<close>.\<close>

datatype 'f pvalue = PStr "codepoint list" | PFloat 'f

type_synonym 'f params = "(string \<times> 'f pvalue) list"

record message =
  role :: string
  content :: string

record tool =
  name :: string
  inputSchema :: string

text \<open>\<open>result.content\<close> of a tool call: a list of content items, or any other value.\<close>

datatype 'c tool_content = ContentList "'c list" | ContentValue 'c

text \<open>What the client does to the outside, in order.\<close>

datatype 'f event =
    ToolCalled string "'f params"
  | ChatCalled string "message list"
  | Prompted string
  | Printed string
  | ToolsPrinted "string list"
  | SessionStarted string
  | SessionClosed

text \<open>
  The collaborators. \<open>float_of\<close> is Python's \<open>float\<close> on a string (\<open>None\<close>: it raises
  \<open>ValueError\<close>), \<open>str_of\<close> is \<open>str\<close> on content values. The remote call, the chat
  model and the closing of the exit stack answer as a function of what has happened so
  far; \<open>start_session\<close> stands for spawning the server, entering the session,
  \<open>initialize\<close> and \<open>list_tools\<close>.
\<close>

record ('f, 'c) world =
  float_of :: "string \<Rightarrow> 'f option"
  str_of :: "'c \<Rightarrow> string"
  session_call_tool :: "'f event list \<Rightarrow> string \<Rightarrow> 'f params \<Rightarrow> exn + 'c tool_content"
  ollama_chat :: "'f event list \<Rightarrow> string \<Rightarrow> message list \<Rightarrow> exn + string"
  start_session :: "string \<Rightarrow> exn + tool list"
  aclose :: "'f event list \<Rightarrow> exn option"

text \<open>The client object: the tool registry, and the trace of its effects.\<close>

record 'f client =
  available_tools :: "string \<rightharpoonup> tool"
  trace :: "'f event list"

definition emit :: "'f event \<Rightarrow> 'f client \<Rightarrow> 'f client" where
  "emit ev c = c\<lparr>trace := trace c @ [ev]\<rparr>"

datatype status = Returned | Raised exn | Blocked

section \<open>The client\<close>

definition connect_to_server ::
  "('f, 'c) world \<Rightarrow> 'f client \<Rightarrow> string \<Rightarrow> (exn + unit) \<times> 'f client" where
  "connect_to_server w c server_script_path =
     (if \<not> suffix ''.py'' server_script_path
      then (Inl (Exn ValueError ''Server script must be a Python (.py) file''), c)
      else
        (let c1 = emit (SessionStarted server_script_path) c in
         case start_session w server_script_path of
           Inl e \<Rightarrow> (Inl e, c1)
         | Inr tools \<Rightarrow>
             (Inr (),
              emit (ToolsPrinted (rev (remdups (rev (map name tools)))))
                (c1\<lparr>available_tools := foldl (\<lambda>m t. m(name t \<mapsto> t)) Map.empty tools\<rparr>))))"

definition call_mcp_tool ::
  "('f, 'c) world \<Rightarrow> 'f client \<Rightarrow> string \<Rightarrow> 'f params \<Rightarrow> (exn + string) \<times> 'f client" where
  "call_mcp_tool w c tool_name params =
     (if available_tools c tool_name \<noteq> None
      then
        (let c1 = emit (ToolCalled tool_name params) c in
         case session_call_tool w (trace c) tool_name params of
           Inr (ContentList items) \<Rightarrow> (Inr (str_join [CHR 0x0A] (map (str_of w) items)), c1)
         | Inr (ContentValue v) \<Rightarrow> (Inr (str_of w v), c1)
         | Inl e \<Rightarrow>
             if isinstance_Exception e
             then (Inr (''Error calling tool '' @ tool_name @ '': '' @ exn_str e), c1)
             else (Inl e, c1))
      else (Inr (''Tool '' @ tool_name @ '' not available.''), c))"

text \<open>
  \<open>lat, lon = map(float, tokens)\<close>: the unpacking draws from the lazy \<open>map\<close> one item at
  a time, and a third item, when there is one, is converted before the unpacking
  complains. Every failure is a \<open>ValueError\<close>; its text is never shown.
\<close>

definition float_error :: "string \<Rightarrow> exn" where
  "float_error tok = Exn ValueError (''could not convert string to float: '' @ tok)"

fun unpack_floats :: "(string \<Rightarrow> 'f option) \<Rightarrow> string list \<Rightarrow> exn + ('f \<times> 'f)" where
  "unpack_floats f [] = Inl (Exn ValueError ''not enough values to unpack (expected 2, got 0)'')"
| "unpack_floats f [a] =
     (case f a of
        None \<Rightarrow> Inl (float_error a)
      | Some x \<Rightarrow> Inl (Exn ValueError ''not enough values to unpack (expected 2, got 1)''))"
| "unpack_floats f (a # b # rest) =
     (case f a of
        None \<Rightarrow> Inl (float_error a)
      | Some x \<Rightarrow>
          (case f b of
             None \<Rightarrow> Inl (float_error b)
           | Some y \<Rightarrow>
               (case rest of
                  [] \<Rightarrow> Inr (x, y)
                | t # ts \<Rightarrow>
                    (case f t of
                       None \<Rightarrow> Inl (float_error t)
                     | Some z \<Rightarrow> Inl (Exn ValueError ''too many values to unpack (expected 2)'')))))"

definition invalid_location :: string where
  "invalid_location = ''Invalid location format. Please provide latitude and longitude.''"

definition process_query ::
  "('f, 'c) world \<Rightarrow> 'f client \<Rightarrow> string \<Rightarrow> (exn + string) \<times> 'f client" where
  "process_query w c query =
     (let messages = [\<lparr>role = ''user'', content = query\<rparr>] in
      if str_contains ''weather alert in'' (str_lower query)
      then
        (let state = str_upper (str_strip (last (str_split query ''weather alert in'')))
         in call_mcp_tool w c ''get_alerts'' [(''state'', PStr state)])
      else if str_contains ''weather forecast for'' (str_lower query)
      then
        (let location = str_strip (last (str_split query ''weather forecast for'')) in
         case unpack_floats (float_of w) (str_words location) of
           Inl e \<Rightarrow> if isinstance_ValueError e then (Inr invalid_location, c) else (Inl e, c)
         | Inr (lat, lon) \<Rightarrow>
             (case call_mcp_tool w c ''get_forecast''
                     [(''latitude'', PFloat lat), (''longitude'', PFloat lon)] of
                (Inl e, c1) \<Rightarrow>
                  if isinstance_ValueError e then (Inr invalid_location, c1) else (Inl e, c1)
              | (Inr text, c1) \<Rightarrow> (Inr text, c1)))
      else
        (let c1 = emit (ChatCalled ''llama3.2:latest'' messages) c in
         case ollama_chat w (trace c) ''llama3.2:latest'' messages of
           Inl e \<Rightarrow> (Inl e, c1)
         | Inr reply \<Rightarrow> (Inr reply, c1)))"

text \<open>
  The \<open>while True\<close> loop of \<open>chat_loop\<close>, run against the outcomes of the successive
  calls of \<open>input\<close>: a line, or an exception. When the list is used up the loop is
  \<open>Blocked\<close> at the prompt.
\<close>

definition query_prompt :: string where
  "query_prompt = CHR 0x0A # ''Query: ''"

definition error_line :: "exn \<Rightarrow> string" where
  "error_line e = CHR 0x0A # ''Error: '' @ exn_str e"

fun chat_loop_while ::
  "('f, 'c) world \<Rightarrow> 'f client \<Rightarrow> (exn + string) list \<Rightarrow> status \<times> 'f client" where
  "chat_loop_while w c [] = (Blocked, emit (Prompted query_prompt) c)"
| "chat_loop_while w c (i # inputs) =
     (let c1 = emit (Prompted query_prompt) c in
      case i of
        Inl e \<Rightarrow>
          if isinstance_Exception e
          then chat_loop_while w (emit (Printed (error_line e)) c1) inputs
          else (Raised e, c1)
      | Inr line \<Rightarrow>
          (let query = str_strip line in
           if str_lower query = ''quit'' then (Returned, c1)
           else
             (case process_query w c1 query of
                (Inr response, c2) \<Rightarrow>
                  chat_loop_while w (emit (Printed (CHR 0x0A # response)) c2) inputs
              | (Inl e, c2) \<Rightarrow>
                  if isinstance_Exception e
                  then chat_loop_while w (emit (Printed (error_line e)) c2) inputs
                  else (Raised e, c2))))"

definition chat_loop ::
  "('f, 'c) world \<Rightarrow> 'f client \<Rightarrow> (exn + string) list \<Rightarrow> status \<times> 'f client" where
  "chat_loop w c inputs =
     chat_loop_while w
       (emit (Printed (''Type your queries or '' @ [CHR 0x27] @ ''quit'' @ [CHR 0x27] @ '' to exit.''))
          (emit (Printed (CHR 0x0A # ''MCP Client Started!'')) c))
       inputs"

definition cleanup :: "('f, 'c) world \<Rightarrow> 'f client \<Rightarrow> exn option \<times> 'f client" where
  "cleanup w c = (aclose w (trace c), emit SessionClosed c)"

text \<open>
  \<open>main\<close>, given \<open>sys.argv\<close> and the console's input. The \<open>finally\<close> clause runs once
  the \<open>try\<close> body has returned or raised; an exception of \<open>cleanup\<close> replaces the
  body's outcome.
\<close>

definition new_client :: "'f client" where
  "new_client = \<lparr>available_tools = Map.empty, trace = []\<rparr>"

definition main ::
  "('f, 'c) world \<Rightarrow> string list \<Rightarrow> (exn + string) list \<Rightarrow> status \<times> 'f client" where
  "main w argv inputs =
     (if length argv < 2
      then (Raised (Exn SystemExit ''1''),
            emit (Printed ''Usage: python client.py <path_to_server_script>'') new_client)
      else
        (let (body, c1) =
               (case connect_to_server w new_client (argv ! 1) of
                  (Inl e, c1) \<Rightarrow> (Raised e, c1)
                | (Inr u, c1) \<Rightarrow> chat_loop w c1 inputs)
         in if body = Blocked then (Blocked, c1)
            else
              (case cleanup w c1 of
                 (Some e, c2) \<Rightarrow> (Raised e, c2)
               | (None, c2) \<Rightarrow> (body, c2))))"


section \<open>Specification vocabulary and a sample session\<close>

text \<open>\<open>mentions phrase q\<close>: some substring of \<open>q\<close> is \<open>phrase\<close> up to letter case.\<close>

definition mentions :: "string \<Rightarrow> string \<Rightarrow> bool" where
  "mentions phrase q = (\<exists>pre t post. q = pre @ t @ post \<and> str_lower t = phrase)"

text \<open>\<open>raises_only_errors w\<close>: whatever the remote call and the chat model raise is
  derived from \<open>Exception\<close>.\<close>

definition raises_only_errors :: "('f, 'c) world \<Rightarrow> bool" where
  "raises_only_errors w =
     ((\<forall>h n p e. session_call_tool w h n p = Inl e \<longrightarrow> isinstance_Exception e) \<and>
      (\<forall>h m ms e. ollama_chat w h m ms = Inl e \<longrightarrow> isinstance_Exception e))"

text \<open>
  A sample tool provider for the concrete instances below: floats are kept as their
  literals, content items are text, the alerts tool answers, the forecast tool fails in
  transport and the chat model is unreachable.
\<close>

definition demo_tools :: "tool list" where
  "demo_tools =
     [\<lparr>name = ''get_alerts'', inputSchema = ''state''\<rparr>,
      \<lparr>name = ''get_forecast'', inputSchema = ''latitude longitude''\<rparr>]"

definition demo_world :: "(string, string) world" where
  "demo_world =
     \<lparr>float_of = (\<lambda>s. if s = ''38.5'' \<or> s = ''-120.2'' then Some s else None),
      str_of = (\<lambda>v. v),
      session_call_tool =
        (\<lambda>h n p. if n = ''get_alerts''
                  then (if p = [(''state'', PStr (map Latin1 ''CA''))]
                        then Inr (ContentList [''Event: Flood Watch'', ''Area: Sacramento'', ''Severity: Moderate''])
                        else Inr (ContentValue ''No active alerts for this state.''))
                  else Inl (Exn OtherException ''Connection closed'')),
      ollama_chat = (\<lambda>h m ms. Inl (Exn OtherException ''Failed to connect to Ollama'')),
      start_session = (\<lambda>p. Inr demo_tools),
      aclose = (\<lambda>h. None)\<rparr>"

text \<open>The same provider when the pending remote call is cancelled: the awaited call
  raises \<open>asyncio.CancelledError\<close>, which derives from \<open>BaseException\<close> only.\<close>

definition cancel_world :: "(string, string) world" where
  "cancel_world =
     demo_world\<lparr>session_call_tool :=
       (\<lambda>h n p. Inl (Exn OtherBaseException ''shutdown''))\<rparr>"

definition demo_client :: "string client" where
  "demo_client =
     \<lparr>available_tools = foldl (\<lambda>m t. m(name t \<mapsto> t)) Map.empty demo_tools, trace = []\<rparr>"

section \<open>Facts about the string operations\<close>

lemmas str_eval = str_lower_def chr_lower_def str_upper_def chr_upper_def chr_isspace_def
  latin1_whitespace_def latin1_uppercase_def latin1_lowercase_def str_split_def str_strip_def
  str_words_def

lemmas demo_eval = demo_world_def demo_client_def demo_tools_def emit_def

lemma str_contains_sublist: "str_contains sub s = sublist sub s"
  by (induction s) (simp_all add: sublist_Cons_right)

lemma str_contains_iff: "str_contains sub s \<longleftrightarrow> (\<exists>ps ss. s = ps @ sub @ ss)"
  by (simp add: str_contains_sublist sublist_def)

text \<open>Containment in the lower-cased query is containment up to letter case.\<close>

lemma str_contains_lower_iff: "str_contains phrase (str_lower q) \<longleftrightarrow> mentions phrase q"
proof
  assume "str_contains phrase (str_lower q)"
  then obtain ps ss where "map chr_lower q = ps @ phrase @ ss"
    by (auto simp: str_contains_iff str_lower_def)
  then have "\<exists>us vs. q = us @ vs \<and> ps = map chr_lower us \<and> phrase @ ss = map chr_lower vs"
    by (simp only: map_eq_append_conv)
  then obtain pre r where q: "q = pre @ r" and "map chr_lower r = phrase @ ss"
    by metis
  then have "\<exists>us vs. r = us @ vs \<and> phrase = map chr_lower us \<and> ss = map chr_lower vs"
    by (simp only: map_eq_append_conv)
  then obtain t post where "r = t @ post" and "map chr_lower t = phrase"
    by metis
  with q show "mentions phrase q"
    by (auto simp: mentions_def str_lower_def)
next
  assume "mentions phrase q"
  then obtain pre t post where "q = pre @ t @ post" "str_lower t = phrase"
    by (auto simp: mentions_def)
  then have "str_lower q = str_lower pre @ phrase @ str_lower post"
    by (auto simp: str_lower_def)
  then show "str_contains phrase (str_lower q)"
    unfolding str_contains_iff by blast
qed





section \<open>Tool invocation\<close>

text \<open>
  C5. For a tool name that is not in the registry, whatever the parameters,
  \<open>call_mcp_tool\<close> returns the text "Tool <name> not available." as a normal result,
  not an exception, and the client is left as it was: no remote call is recorded.
\<close>

theorem call_mcp_tool_not_available:
  "available_tools c tool_name = None \<Longrightarrow>
   call_mcp_tool w c tool_name params = (Inr (''Tool '' @ tool_name @ '' not available.''), c)"
  by (simp add: call_mcp_tool_def)

theorem call_mcp_tool_not_available_witness:
  "available_tools demo_client ''get_time'' = None \<and>
   call_mcp_tool demo_world demo_client ''get_time'' [] =
     (Inr ''Tool get_time not available.'', demo_client)"
  using call_mcp_tool_not_available [of demo_client "''get_time''" demo_world "[]"]
  by (simp add: demo_eval)

text \<open>
  C6. For a registered tool whose remote call raises an exception \<open>e\<close> of a class derived
  from \<open>Exception\<close>, \<open>call_mcp_tool\<close> returns the text
  "Error calling tool <name>: <str(e)>" as a normal result. The session stays usable:
  the only effect is the attempted call, the registry is as before, the session has not
  been closed, and a later call of a registered tool is sent to the provider again.
  An exception that is not derived from \<open>Exception\<close> is not caught.
\<close>

theorem call_mcp_tool_catches:
  "available_tools c tool_name \<noteq> None \<Longrightarrow>
   session_call_tool w (trace c) tool_name params = Inl e \<Longrightarrow>
   isinstance_Exception e \<Longrightarrow>
   call_mcp_tool w c tool_name params =
     (Inr (''Error calling tool '' @ tool_name @ '': '' @ exn_str e),
      emit (ToolCalled tool_name params) c)
   \<and> (let c' = snd (call_mcp_tool w c tool_name params) in
        available_tools c' = available_tools c
        \<and> count_list (trace c') SessionClosed = count_list (trace c) SessionClosed
        \<and> (\<forall>n p. available_tools c n \<noteq> None \<longrightarrow>
               snd (call_mcp_tool w c' n p) = emit (ToolCalled n p) c'))"
  by (simp add: call_mcp_tool_def emit_def Let_def split: sum.splits tool_content.splits)

theorem call_mcp_tool_catches_witness:
  "available_tools demo_client ''get_forecast'' \<noteq> None \<and>
   session_call_tool demo_world (trace demo_client) ''get_forecast'' [] =
     Inl (Exn OtherException ''Connection closed'') \<and>
   isinstance_Exception (Exn OtherException ''Connection closed'') \<and>
   fst (call_mcp_tool demo_world demo_client ''get_forecast'' []) =
     Inr ''Error calling tool get_forecast: Connection closed''"
  using call_mcp_tool_catches [of demo_client "''get_forecast''" demo_world "[]"
      "Exn OtherException ''Connection closed''"]
  by (simp add: demo_eval)

text \<open>
  Without the restriction to \<open>Exception\<close> this fails: when the awaited call is
  cancelled, the exception leaves \<open>call_mcp_tool\<close> and no text is returned.
\<close>

theorem call_mcp_tool_cancelled:
  "available_tools demo_client ''get_alerts'' \<noteq> None \<and>
   session_call_tool cancel_world (trace demo_client) ''get_alerts''
       [(''state'', PStr (map Latin1 ''CA''))] = Inl (Exn OtherBaseException ''shutdown'') \<and>
   exn_str (Exn OtherBaseException ''shutdown'') = ''shutdown'' \<and>
   fst (call_mcp_tool cancel_world demo_client ''get_alerts''
       [(''state'', PStr (map Latin1 ''CA''))]) \<noteq> Inr ''Error calling tool get_alerts: shutdown'' \<and>
   fst (call_mcp_tool cancel_world demo_client ''get_alerts''
       [(''state'', PStr (map Latin1 ''CA''))]) = Inl (Exn OtherBaseException ''shutdown'')"
  by (simp add: call_mcp_tool_def cancel_world_def demo_eval)

text \<open>\<open>sep.join\<close> in terms of list concatenation.\<close>

lemma str_join_concat:
  "str_join sep xs = (case xs of [] \<Rightarrow> [] | x # ys \<Rightarrow> x @ concat (map (\<lambda>y. sep @ y) ys))"
  by (induction sep xs rule: str_join.induct) simp_all

lemma append_single: "(@) [x] = (#) x"
  by (rule ext) simp

text \<open>
  C7. For a registered tool whose remote call succeeds, \<open>call_mcp_tool\<close> returns one
  string: for a list of content items the string representation of the first item,
  followed for each further item by a line feed and its string representation (the empty
  string for no items); for any other content its string representation.
\<close>

theorem call_mcp_tool_normalizes:
  "available_tools c tool_name \<noteq> None \<Longrightarrow>
   session_call_tool w (trace c) tool_name params = Inr r \<Longrightarrow>
   call_mcp_tool w c tool_name params =
     (Inr (case r of
             ContentList items \<Rightarrow>
               (case map (str_of w) items of
                  [] \<Rightarrow> []
                | s # ss \<Rightarrow> s @ concat (map (\<lambda>t. CHR 0x0A # t) ss))
           | ContentValue v \<Rightarrow> str_of w v),
      emit (ToolCalled tool_name params) c)"
  by (simp add: call_mcp_tool_def str_join_concat append_single
      split: tool_content.splits list.splits)

theorem call_mcp_tool_normalizes_witness:
  "available_tools demo_client ''get_alerts'' \<noteq> None \<and>
   session_call_tool demo_world (trace demo_client) ''get_alerts'' [(''state'', PStr (map Latin1 ''CA''))] =
     Inr (ContentList [''Event: Flood Watch'', ''Area: Sacramento'', ''Severity: Moderate'']) \<and>
   session_call_tool demo_world (trace demo_client) ''get_alerts'' [(''state'', PStr (map Latin1 ''ZZ''))] =
     Inr (ContentValue ''No active alerts for this state.'') \<and>
   fst (call_mcp_tool demo_world demo_client ''get_alerts'' [(''state'', PStr (map Latin1 ''CA''))]) =
     Inr (''Event: Flood Watch'' @ [CHR 0x0A] @ ''Area: Sacramento'' @ [CHR 0x0A] @
         ''Severity: Moderate'') \<and>
   fst (call_mcp_tool demo_world demo_client ''get_alerts'' [(''state'', PStr (map Latin1 ''ZZ''))]) =
     Inr ''No active alerts for this state.''"
  using call_mcp_tool_normalizes [of demo_client "''get_alerts''" demo_world
      "[(''state'', PStr (map Latin1 ''CA''))]" "ContentList [''Event: Flood Watch'', ''Area: Sacramento'', ''Severity: Moderate'']"]
    call_mcp_tool_normalizes [of demo_client "''get_alerts''" demo_world
      "[(''state'', PStr (map Latin1 ''ZZ''))]" "ContentValue ''No active alerts for this state.''"]
  by (simp add: demo_eval)


section \<open>Query routing\<close>

lemma call_mcp_tool_raises_only_base:
  "call_mcp_tool w c tool_name params = (Inl e, c') \<Longrightarrow> \<not> isinstance_Exception e"
  by (auto simp: call_mcp_tool_def Let_def split: if_splits sum.splits tool_content.splits)

lemma unpack_floats_Inl: "unpack_floats f toks = Inl e \<Longrightarrow> isinstance_ValueError e"
  by (induction f toks rule: unpack_floats.induct)
     (auto simp: float_error_def split: option.splits list.splits)

lemma unpack_floats_Inr_iff:
  "unpack_floats f toks = Inr (x, y) \<longleftrightarrow> (\<exists>a b. toks = [a, b] \<and> f a = Some x \<and> f b = Some y)"
  by (induction f toks rule: unpack_floats.induct)
     (auto split: option.splits list.splits)





text \<open>
  The forecast branch. The handler for \<open>ValueError\<close> also encloses the tool call, but
  \<open>call_mcp_tool\<close> lets no exception of that class out.
\<close>

lemma process_query_forecast:
  assumes "\<not> str_contains ''weather alert in'' (str_lower query)"
    and "str_contains ''weather forecast for'' (str_lower query)"
  shows "process_query w c query =
     (case unpack_floats (float_of w)
             (str_words (str_strip (last (str_split query ''weather forecast for'')))) of
        Inl e \<Rightarrow> (Inr invalid_location, c)
      | Inr (lat, lon) \<Rightarrow>
          call_mcp_tool w c ''get_forecast''
            [(''latitude'', PFloat lat), (''longitude'', PFloat lon)])"
proof (cases "unpack_floats (float_of w)
             (str_words (str_strip (last (str_split query ''weather forecast for''))))")
  case (Inl e)
  with assms unpack_floats_Inl[OF Inl] show ?thesis
    by (simp add: process_query_def)
next
  case (Inr p)
  obtain lat lon where p: "p = (lat, lon)" by (cases p)
  obtain r c1 where call: "call_mcp_tool w c ''get_forecast''
            [(''latitude'', PFloat lat), (''longitude'', PFloat lon)] = (r, c1)"
    by (cases "call_mcp_tool w c ''get_forecast''
            [(''latitude'', PFloat lat), (''longitude'', PFloat lon)]")
  show ?thesis
  proof (cases r)
    case (Inl e)
    with call call_mcp_tool_raises_only_base[of w c _ _ e c1]
    have "\<not> isinstance_ValueError e" by (cases e) auto
    with assms Inr p call Inl show ?thesis
      by (simp add: process_query_def)
  next
    case (Inr reply)
    with assms \<open>unpack_floats _ _ = Inr p\<close> p call show ?thesis
      by (simp add: process_query_def)
  qed
qed

text \<open>
  C1. The region code should be the trimmed, upper-cased text behind the trigger phrase
  in whatever letter case the phrase is typed. The phrase is looked for in the
  lower-cased query but the split is made on the query as typed, so a phrase that is not
  all lower case is not split off: for "Weather Alert In ca" the alerts tool is called
  with the whole upper-cased query as the state, not with "CA".
\<close>

theorem process_query_alert_mixed_case:
  "process_query w c ''Weather Alert In ca'' =
     call_mcp_tool w c ''get_alerts'' [(''state'', PStr (map Latin1 ''WEATHER ALERT IN CA''))]"
  by (simp add: process_query_def str_eval)

text \<open>
  C2. A forecast query with two numeric tokens behind the trigger phrase should call the
  forecast tool in whatever letter case the phrase is typed. For the same reason as above,
  "Weather Forecast For 38.5 -120.2" keeps its five tokens, the unpacking fails whatever
  \<open>float\<close> does, and the answer is the invalid-location text with no tool call.
\<close>

theorem process_query_forecast_mixed_case:
  "process_query w c ''Weather Forecast For 38.5 -120.2'' = (Inr invalid_location, c)"
proof -
  have a: "\<not> str_contains ''weather alert in'' (str_lower ''Weather Forecast For 38.5 -120.2'')"
    by (simp add: str_eval)
  have b: "str_contains ''weather forecast for'' (str_lower ''Weather Forecast For 38.5 -120.2'')"
    by (simp add: str_eval)
  have toks: "str_words (str_strip (last (str_split ''Weather Forecast For 38.5 -120.2''
                 ''weather forecast for'')))
      = [''Weather'', ''Forecast'', ''For'', ''38.5'', ''-120.2'']"
    by (simp add: str_eval)
  have "\<exists>e. unpack_floats (float_of w) [''Weather'', ''Forecast'', ''For'', ''38.5'', ''-120.2'']
           = Inl e"
    by (simp split: option.splits)
  then show ?thesis
    unfolding process_query_forecast[OF a b] toks by auto
qed




text \<open>
  C3. Routing is containment of a trigger phrase up to letter case, in a fixed order: a
  query that mentions "weather alert in" takes the alerts path, also when it mentions
  the forecast phrase; otherwise a query that mentions "weather forecast for" takes the
  forecast path; every other query goes to the chat model with the query as the single
  user message, and the model's outcome is the outcome of the query.
\<close>

theorem process_query_routing:
  "(mentions ''weather alert in'' query \<longrightarrow>
      process_query w c query =
        call_mcp_tool w c ''get_alerts''
          [(''state'', PStr (str_upper (str_strip (last (str_split query ''weather alert in'')))))])
   \<and> (\<not> mentions ''weather alert in'' query \<and> mentions ''weather forecast for'' query \<longrightarrow>
      process_query w c query =
        (case unpack_floats (float_of w)
                (str_words (str_strip (last (str_split query ''weather forecast for'')))) of
           Inl e \<Rightarrow> (Inr invalid_location, c)
         | Inr (lat, lon) \<Rightarrow>
             call_mcp_tool w c ''get_forecast''
               [(''latitude'', PFloat lat), (''longitude'', PFloat lon)]))
   \<and> (\<not> mentions ''weather alert in'' query \<and> \<not> mentions ''weather forecast for'' query \<longrightarrow>
      process_query w c query =
        (ollama_chat w (trace c) ''llama3.2:latest'' [\<lparr>role = ''user'', content = query\<rparr>],
         emit (ChatCalled ''llama3.2:latest'' [\<lparr>role = ''user'', content = query\<rparr>]) c))"
proof (intro conjI impI)
  assume "mentions ''weather alert in'' query"
  then have "str_contains ''weather alert in'' (str_lower query)"
    by (simp only: str_contains_lower_iff)
  then show "process_query w c query =
        call_mcp_tool w c ''get_alerts''
          [(''state'', PStr (str_upper (str_strip (last (str_split query ''weather alert in'')))))]"
    by (simp add: process_query_def)
next
  assume "\<not> mentions ''weather alert in'' query \<and> mentions ''weather forecast for'' query"
  then have "\<not> str_contains ''weather alert in'' (str_lower query)"
    and "str_contains ''weather forecast for'' (str_lower query)"
    by (simp_all add: str_contains_lower_iff)
  then show "process_query w c query =
        (case unpack_floats (float_of w)
                (str_words (str_strip (last (str_split query ''weather forecast for'')))) of
           Inl e \<Rightarrow> (Inr invalid_location, c)
         | Inr (lat, lon) \<Rightarrow>
             call_mcp_tool w c ''get_forecast''
               [(''latitude'', PFloat lat), (''longitude'', PFloat lon)])"
    by (rule process_query_forecast)
next
  assume "\<not> mentions ''weather alert in'' query \<and> \<not> mentions ''weather forecast for'' query"
  then have "\<not> str_contains ''weather alert in'' (str_lower query)"
    and "\<not> str_contains ''weather forecast for'' (str_lower query)"
    by (simp_all add: str_contains_lower_iff)
  then show "process_query w c query =
        (ollama_chat w (trace c) ''llama3.2:latest'' [\<lparr>role = ''user'', content = query\<rparr>],
         emit (ChatCalled ''llama3.2:latest'' [\<lparr>role = ''user'', content = query\<rparr>]) c)"
    by (simp add: process_query_def Let_def split: sum.splits)
qed

theorem process_query_routing_witness:
  "mentions ''weather alert in'' ''Is a Weather Forecast For 1 2 or a WEATHER ALERT IN ca due'' \<and>
   process_query demo_world demo_client
       ''Is a Weather Forecast For 1 2 or a WEATHER ALERT IN ca due'' =
     call_mcp_tool demo_world demo_client ''get_alerts''
       [(''state'', PStr (map Latin1 ''IS A WEATHER FORECAST FOR 1 2 OR A WEATHER ALERT IN CA DUE''))] \<and>
   \<not> mentions ''weather alert in'' ''weather forecast for 38.5 -120.2'' \<and>
   mentions ''weather forecast for'' ''weather forecast for 38.5 -120.2'' \<and>
   process_query demo_world demo_client ''weather forecast for 38.5 -120.2'' =
     call_mcp_tool demo_world demo_client ''get_forecast''
       [(''latitude'', PFloat ''38.5''), (''longitude'', PFloat ''-120.2'')] \<and>
   \<not> mentions ''weather alert in'' ''tell me a joke'' \<and>
   \<not> mentions ''weather forecast for'' ''tell me a joke'' \<and>
   process_query demo_world demo_client ''tell me a joke'' =
     (Inl (Exn OtherException ''Failed to connect to Ollama''),
      emit (ChatCalled ''llama3.2:latest'' [\<lparr>role = ''user'', content = ''tell me a joke''\<rparr>])
        demo_client)"
proof -
  have a1: "mentions ''weather alert in''
      ''Is a Weather Forecast For 1 2 or a WEATHER ALERT IN ca due''"
    unfolding str_contains_lower_iff[symmetric] by (simp add: str_eval)
  have a2: "str_upper (str_strip (last (str_split
        ''Is a Weather Forecast For 1 2 or a WEATHER ALERT IN ca due'' ''weather alert in'')))
      = map Latin1 ''IS A WEATHER FORECAST FOR 1 2 OR A WEATHER ALERT IN CA DUE''"
    by (simp add: str_eval)
  have f1: "\<not> mentions ''weather alert in'' ''weather forecast for 38.5 -120.2''"
    unfolding str_contains_lower_iff[symmetric] by (simp add: str_eval)
  have f2: "mentions ''weather forecast for'' ''weather forecast for 38.5 -120.2''"
    unfolding str_contains_lower_iff[symmetric] by (simp add: str_eval)
  have f3: "unpack_floats (float_of demo_world) (str_words (str_strip (last (str_split
        ''weather forecast for 38.5 -120.2'' ''weather forecast for''))))
      = Inr (''38.5'', ''-120.2'')"
    by (simp add: str_eval demo_world_def)
  have j1: "\<not> mentions ''weather alert in'' ''tell me a joke''"
    unfolding str_contains_lower_iff[symmetric] by (simp add: str_eval)
  have j2: "\<not> mentions ''weather forecast for'' ''tell me a joke''"
    unfolding str_contains_lower_iff[symmetric] by (simp add: str_eval)
  have j3: "ollama_chat demo_world (trace demo_client) ''llama3.2:latest''
       [\<lparr>role = ''user'', content = ''tell me a joke''\<rparr>]
      = Inl (Exn OtherException ''Failed to connect to Ollama'')"
    by (simp add: demo_world_def)
  note R = process_query_routing [where w = demo_world and c = demo_client]
  from R [of "''Is a Weather Forecast For 1 2 or a WEATHER ALERT IN ca due''",
          THEN conjunct1, rule_format, OF a1]
  have A: "process_query demo_world demo_client
       ''Is a Weather Forecast For 1 2 or a WEATHER ALERT IN ca due'' =
     call_mcp_tool demo_world demo_client ''get_alerts''
       [(''state'', PStr (map Latin1 ''IS A WEATHER FORECAST FOR 1 2 OR A WEATHER ALERT IN CA DUE''))]"
    unfolding a2 .
  from R [of "''weather forecast for 38.5 -120.2''",
          THEN conjunct2, THEN conjunct1, rule_format, OF conjI, OF f1 f2]
  have F: "process_query demo_world demo_client ''weather forecast for 38.5 -120.2'' =
     call_mcp_tool demo_world demo_client ''get_forecast''
       [(''latitude'', PFloat ''38.5''), (''longitude'', PFloat ''-120.2'')]"
    unfolding f3 by simp
  from R [of "''tell me a joke''",
          THEN conjunct2, THEN conjunct2, rule_format, OF conjI, OF j1 j2]
  have J: "process_query demo_world demo_client ''tell me a joke'' =
     (Inl (Exn OtherException ''Failed to connect to Ollama''),
      emit (ChatCalled ''llama3.2:latest'' [\<lparr>role = ''user'', content = ''tell me a joke''\<rparr>])
        demo_client)"
    unfolding j3 .
  from a1 A f1 f2 F j1 j2 J show ?thesis by blast
qed

text \<open>
  C4. A forecast-triggered query whose extracted remainder is not exactly two tokens
  that both convert to floats is answered with the fixed invalid-location text, and the
  client is left as it was: no tool call is made.
\<close>

theorem process_query_invalid_location:
  "\<not> str_contains ''weather alert in'' (str_lower query) \<Longrightarrow>
   str_contains ''weather forecast for'' (str_lower query) \<Longrightarrow>
   \<not> (\<exists>a b x y. str_words (str_strip (last (str_split query ''weather forecast for''))) = [a, b]
          \<and> float_of w a = Some x \<and> float_of w b = Some y) \<Longrightarrow>
   process_query w c query = (Inr invalid_location, c)"
proof -
  assume na: "\<not> str_contains ''weather alert in'' (str_lower query)"
    and fc: "str_contains ''weather forecast for'' (str_lower query)"
    and bad: "\<not> (\<exists>a b x y.
          str_words (str_strip (last (str_split query ''weather forecast for''))) = [a, b]
          \<and> float_of w a = Some x \<and> float_of w b = Some y)"
  have "\<exists>e. unpack_floats (float_of w)
          (str_words (str_strip (last (str_split query ''weather forecast for'')))) = Inl e"
  proof (cases "unpack_floats (float_of w)
          (str_words (str_strip (last (str_split query ''weather forecast for''))))")
    case (Inl e)
    then show ?thesis by blast
  next
    case (Inr p)
    obtain x y where "p = (x, y)" by (cases p)
    with Inr bad show ?thesis
      by (simp only: unpack_floats_Inr_iff) blast
  qed
  then show ?thesis
    unfolding process_query_forecast[OF na fc] by auto
qed


theorem process_query_invalid_location_witness:
  "\<not> str_contains ''weather alert in'' (str_lower ''weather forecast for abc'') \<and>
   str_contains ''weather forecast for'' (str_lower ''weather forecast for abc'') \<and>
   \<not> (\<exists>a b x y.
        str_words (str_strip (last (str_split ''weather forecast for abc''
            ''weather forecast for''))) = [a, b]
        \<and> float_of demo_world a = Some x \<and> float_of demo_world b = Some y) \<and>
   process_query demo_world demo_client ''weather forecast for abc'' =
     (Inr ''Invalid location format. Please provide latitude and longitude.'', demo_client)"
proof -
  have h1: "\<not> str_contains ''weather alert in'' (str_lower ''weather forecast for abc'')"
    by (simp add: str_eval)
  have h2: "str_contains ''weather forecast for'' (str_lower ''weather forecast for abc'')"
    by (simp add: str_eval)
  have toks: "str_words (str_strip (last (str_split ''weather forecast for abc''
            ''weather forecast for''))) = [''abc'']"
    by (simp add: str_eval)
  have h3: "\<not> (\<exists>a b x y.
        str_words (str_strip (last (str_split ''weather forecast for abc''
            ''weather forecast for''))) = [a, b]
        \<and> float_of demo_world a = Some x \<and> float_of demo_world b = Some y)"
    unfolding toks by simp
  from process_query_invalid_location [OF h1 h2 h3, of demo_client] h1 h2 h3
  show ?thesis unfolding invalid_location_def by blast
qed


text \<open>
  Beyond ASCII: the no-break space separates and is stripped like a space, letters with
  accents change case, and the sharp s becomes two letters.
\<close>

lemma process_query_forecast_nbsp:
  "process_query demo_world demo_client (''weather forecast for 38.5'' @ [CHR 0xA0] @ ''-120.2'') =
     call_mcp_tool demo_world demo_client ''get_forecast''
       [(''latitude'', PFloat ''38.5''), (''longitude'', PFloat ''-120.2'')]"
proof -
  have na: "\<not> str_contains ''weather alert in''
      (str_lower (''weather forecast for 38.5'' @ [CHR 0xA0] @ ''-120.2''))"
    by (simp add: str_eval)
  have fc: "str_contains ''weather forecast for''
      (str_lower (''weather forecast for 38.5'' @ [CHR 0xA0] @ ''-120.2''))"
    by (simp add: str_eval)
  have toks: "str_words (str_strip (last (str_split
      (''weather forecast for 38.5'' @ [CHR 0xA0] @ ''-120.2'') ''weather forecast for'')))
      = [''38.5'', ''-120.2'']"
    by (simp add: str_eval)
  show ?thesis
    unfolding process_query_forecast[OF na fc] toks by (simp add: demo_world_def)
qed

lemma process_query_alert_latin1:
  "process_query w c (''weather alert in'' @ [CHR 0xA0] @ ''qu'' @ [CHR 0xE9] @ ''bec'' @ [CHR 0xA0]) =
     call_mcp_tool w c ''get_alerts'' [(''state'', PStr (map Latin1 (''QU'' @ [CHR 0xC9] @ ''BEC'')))]"
  by (simp add: process_query_def str_eval)

lemma process_query_alert_sharp_s:
  "process_query w c (''weather alert in stra'' @ [CHR 0xDF] @ ''e'') =
     call_mcp_tool w c ''get_alerts'' [(''state'', PStr (map Latin1 ''STRASSE''))]"
  by (simp add: process_query_def str_eval)


section \<open>Chat loop and lifecycle\<close>

lemmas loop_eval = chat_loop_def query_prompt_def error_line_def process_query_def
  call_mcp_tool_def Let_def


lemma isspace_lower: "chr_isspace a \<Longrightarrow> chr_lower a = a"
proof -
  have "list_all (\<lambda>c. chr_lower c = c) latin1_whitespace"
    by (simp add: latin1_whitespace_def chr_lower_def latin1_uppercase_def latin1_lowercase_def)
  then show "chr_isspace a \<Longrightarrow> chr_lower a = a"
    unfolding chr_isspace_def list_all_iff by blast
qed
lemma lower_not_space: "chr_lower a = x \<Longrightarrow> \<not> chr_isspace x \<Longrightarrow> \<not> chr_isspace a"
  using isspace_lower by metis
text \<open>A line that is "quit" up to letter case has no white space to strip.\<close>

lemma quit_any_case: "str_lower line = ''quit'' \<Longrightarrow> str_strip line = line"
proof -
  assume h: "str_lower line = ''quit''"
  then obtain a b c d where l: "line = [a, b, c, d]"
    and a: "chr_lower a = CHR ''q''" and d: "chr_lower d = CHR ''t''"
    by (auto simp: str_lower_def)
  have "\<not> chr_isspace (CHR ''q'')" "\<not> chr_isspace (CHR ''t'')"
    by (simp_all add: chr_isspace_def latin1_whitespace_def)
  with a d have "\<not> chr_isspace a" "\<not> chr_isspace d"
    using lower_not_space by blast+
  with l show ?thesis by (simp add: str_strip_def)
qed
lemma call_mcp_tool_closed:
  "count_list (trace (snd (call_mcp_tool w c n p))) SessionClosed
     = count_list (trace c) SessionClosed"
  by (simp add: call_mcp_tool_def emit_def Let_def split: sum.splits tool_content.splits)

lemma process_query_closed:
  "count_list (trace (snd (process_query w c q))) SessionClosed
     = count_list (trace c) SessionClosed"
proof (cases "str_contains ''weather alert in'' (str_lower q)")
  case True
  then show ?thesis
    by (simp add: process_query_def call_mcp_tool_closed)
next
  case na: False
  show ?thesis
  proof (cases "str_contains ''weather forecast for'' (str_lower q)")
    case True
    show ?thesis
      unfolding process_query_forecast[OF na True]
      by (simp add: call_mcp_tool_closed split: sum.splits prod.splits)
  next
    case False
    with na show ?thesis
      by (simp add: process_query_def emit_def Let_def split: sum.splits)
  qed
qed

lemma chat_loop_while_closed:
  "count_list (trace (snd (chat_loop_while w c inputs))) SessionClosed
     = count_list (trace c) SessionClosed"
proof (induction inputs arbitrary: c)
  case Nil
  then show ?case by (simp add: emit_def)
next
  case (Cons i inputs)
  show ?case
  proof (cases i)
    case (Inl e)
    with Cons show ?thesis by (simp add: emit_def Let_def)
  next
    case (Inr line)
    obtain r c2 where pq: "process_query w (emit (Prompted query_prompt) c) (str_strip line) = (r, c2)"
      by (cases "process_query w (emit (Prompted query_prompt) c) (str_strip line)")
    with process_query_closed[of w "emit (Prompted query_prompt) c" "str_strip line"]
    have c2: "count_list (trace c2) SessionClosed = count_list (trace c) SessionClosed"
      by (simp add: emit_def)
    with Inr pq Cons show ?thesis
      by (cases r) (simp_all add: emit_def Let_def)
  qed
qed

lemma chat_loop_while_returned:
  "fst (chat_loop_while w c inputs) = Returned \<Longrightarrow>
   \<exists>line. Inr line \<in> set inputs \<and> str_lower (str_strip line) = ''quit''"
proof (induction inputs arbitrary: c)
  case Nil
  then show ?case by simp
next
  case (Cons i inputs)
  show ?case
  proof (cases i)
    case (Inl e)
    with Cons show ?thesis by (auto simp: Let_def split: if_splits)
  next
    case (Inr line)
    show ?thesis
    proof (cases "str_lower (str_strip line) = ''quit''")
      case True
      with Inr show ?thesis by auto
    next
      case False
      obtain r c2 where pq: "process_query w (emit (Prompted query_prompt) c) (str_strip line) = (r, c2)"
        by (cases "process_query w (emit (Prompted query_prompt) c) (str_strip line)")
      with Inr False Cons.prems have "\<exists>c'. fst (chat_loop_while w c' inputs) = Returned"
        by (cases r) (auto simp: Let_def split: if_splits)
      with Cons.IH show ?thesis by auto
    qed
  qed
qed

lemma chat_loop_while_raised:
  "fst (chat_loop_while w c inputs) = Raised e \<Longrightarrow> \<not> isinstance_Exception e"
proof (induction inputs arbitrary: c)
  case Nil
  then show ?case by simp
next
  case (Cons i inputs)
  show ?case
  proof (cases i)
    case (Inl e')
    with Cons show ?thesis by (auto simp: Let_def split: if_splits)
  next
    case (Inr line)
    obtain r c2 where pq: "process_query w (emit (Prompted query_prompt) c) (str_strip line) = (r, c2)"
      by (cases "process_query w (emit (Prompted query_prompt) c) (str_strip line)")
    with Inr Cons show ?thesis
      by (cases r) (auto simp: Let_def split: if_splits)
  qed
qed


lemma connect_to_server_closed:
  "count_list (trace (snd (connect_to_server w c path))) SessionClosed
     = count_list (trace c) SessionClosed"
  by (simp add: connect_to_server_def emit_def Let_def split: sum.splits)

lemma chat_loop_closed:
  "count_list (trace (snd (chat_loop w c inputs))) SessionClosed
     = count_list (trace c) SessionClosed"
  by (simp add: chat_loop_def chat_loop_while_closed emit_def)

lemma main_closes_once:
  assumes argv: "2 \<le> length argv" and ended: "fst (main w argv inputs) \<noteq> Blocked"
  shows "count_list (trace (snd (main w argv inputs))) SessionClosed = 1"
proof -
  obtain r c1 where conn: "connect_to_server w new_client (argv ! 1) = (r, c1)"
    by (cases "connect_to_server w new_client (argv ! 1)")
  with connect_to_server_closed[of w new_client "argv ! 1"]
  have c1: "count_list (trace c1) SessionClosed = 0"
    by (simp add: new_client_def)
  show ?thesis
  proof (cases r)
    case (Inl e)
    with argv conn c1 show ?thesis
      by (simp add: main_def cleanup_def emit_def split: option.splits)
  next
    case (Inr u)
    obtain b c2 where loop: "chat_loop w c1 inputs = (b, c2)"
      by (cases "chat_loop w c1 inputs")
    with chat_loop_closed[of w c1 inputs] c1
    have c2: "count_list (trace c2) SessionClosed = 0" by simp
    from argv conn Inr loop ended have "b \<noteq> Blocked"
      by (auto simp: main_def)
    with argv conn Inr loop c2 show ?thesis
      by (simp add: main_def cleanup_def emit_def split: option.splits)
  qed
qed


text \<open>With collaborators that raise nothing but errors, and a console that never says
  quit, the loop is still at the prompt after any number of inputs.\<close>

lemma call_mcp_tool_returns:
  "raises_only_errors w \<Longrightarrow> call_mcp_tool w c tool_name params \<noteq> (Inl e, c')"
  by (auto simp: call_mcp_tool_def raises_only_errors_def Let_def
      split: sum.splits tool_content.splits)

lemma process_query_raises_errors:
  assumes w: "raises_only_errors w" and pq: "process_query w c q = (Inl e, c')"
  shows "isinstance_Exception e"
proof (cases "str_contains ''weather alert in'' (str_lower q)")
  case True
  with pq call_mcp_tool_returns[OF w] show ?thesis
    by (simp add: process_query_def)
next
  case na: False
  show ?thesis
  proof (cases "str_contains ''weather forecast for'' (str_lower q)")
    case True
    show ?thesis
    proof (cases "unpack_floats (float_of w)
             (str_words (str_strip (last (str_split q ''weather forecast for''))))")
      case (Inl e')
      with pq show ?thesis unfolding process_query_forecast[OF na True] by simp
    next
      case (Inr p)
      obtain lat lon where "p = (lat, lon)" by (cases p)
      with Inr pq call_mcp_tool_returns[OF w]
      show ?thesis unfolding process_query_forecast[OF na True] by simp
    qed
  next
    case False
    with na pq w show ?thesis
      by (auto simp: process_query_def Let_def raises_only_errors_def split: sum.splits)
  qed
qed

lemma chat_loop_while_goes_on:
  "raises_only_errors w \<Longrightarrow>
   \<forall>e. Inl e \<in> set inputs \<longrightarrow> isinstance_Exception e \<Longrightarrow>
   \<forall>l. Inr l \<in> set inputs \<longrightarrow> str_lower (str_strip l) \<noteq> ''quit'' \<Longrightarrow>
   fst (chat_loop_while w c inputs) = Blocked"
proof (induction inputs arbitrary: c)
  case Nil
  then show ?case by simp
next
  case (Cons i inputs)
  from Cons.prems have rest: "\<forall>e. Inl e \<in> set inputs \<longrightarrow> isinstance_Exception e"
    "\<forall>l. Inr l \<in> set inputs \<longrightarrow> str_lower (str_strip l) \<noteq> ''quit''"
    by auto
  note IH = Cons.IH[OF Cons.prems(1) rest]
  show ?case
  proof (cases i)
    case (Inl e)
    with Cons.prems have "isinstance_Exception e" by auto
    with Inl IH show ?thesis by (simp add: Let_def)
  next
    case (Inr line)
    with Cons.prems have nq: "str_lower (str_strip line) \<noteq> ''quit''" by auto
    obtain r c2 where pq: "process_query w (emit (Prompted query_prompt) c) (str_strip line) = (r, c2)"
      by (cases "process_query w (emit (Prompted query_prompt) c) (str_strip line)")
    show ?thesis
    proof (cases r)
      case (Inl e)
      with pq process_query_raises_errors[OF Cons.prems(1)] have "isinstance_Exception e"
        by blast
      with Inr nq pq Inl IH show ?thesis by (simp add: Let_def)
    next
      case (Inr reply)
      with \<open>i = Inr line\<close> nq pq IH show ?thesis by (simp add: Let_def)
    qed
  qed
qed

text \<open>
  Without a server path \<open>main\<close> prints the usage line and exits with status 1 before a
  client exists: no session is started and none is closed.
\<close>

lemma main_without_argument:
  "length argv < 2 \<Longrightarrow>
   main w argv inputs =
     (Raised (Exn SystemExit ''1''),
      emit (Printed ''Usage: python client.py <path_to_server_script>'') new_client)"
  by (simp add: main_def)

text \<open>
  C8. An exception of a class derived from \<open>Exception\<close> that reaches the loop, from
  \<open>process_query\<close> (a failing chat model call, for one) or from \<open>input\<close>, is printed
  as "Error: <str(e)>" behind a line feed, and the loop goes on with the next input. The
  loop returns only when some input line is the quit command, and an exception leaves
  it only when it is not derived from \<open>Exception\<close>. So as long as the collaborators
  raise nothing but such errors and no line is the quit command, the loop is still
  running.
\<close>

theorem chat_loop_survives_errors:
  "(str_lower (str_strip line) \<noteq> ''quit'' \<and>
    process_query w (emit (Prompted query_prompt) c) (str_strip line) = (Inl e, c2) \<and>
    isinstance_Exception e \<longrightarrow>
      chat_loop_while w c (Inr line # inputs) =
        chat_loop_while w (emit (Printed (CHR 0x0A # ''Error: '' @ exn_str e)) c2) inputs)
   \<and> (isinstance_Exception e \<longrightarrow>
      chat_loop_while w c (Inl e # inputs) =
        chat_loop_while w
          (emit (Printed (CHR 0x0A # ''Error: '' @ exn_str e)) (emit (Prompted query_prompt) c))
          inputs)
   \<and> (fst (chat_loop w c console) = Returned \<longrightarrow>
        (\<exists>l. Inr l \<in> set console \<and> str_lower (str_strip l) = ''quit''))
   \<and> (fst (chat_loop w c console) = Raised e' \<longrightarrow> \<not> isinstance_Exception e')
   \<and> (raises_only_errors w \<and>
       (\<forall>x. Inl x \<in> set console \<longrightarrow> isinstance_Exception x) \<and>
       (\<forall>l. Inr l \<in> set console \<longrightarrow> str_lower (str_strip l) \<noteq> ''quit'') \<longrightarrow>
       fst (chat_loop w c console) = Blocked)"
proof (intro conjI impI)
  assume "str_lower (str_strip line) \<noteq> ''quit'' \<and>
    process_query w (emit (Prompted query_prompt) c) (str_strip line) = (Inl e, c2) \<and>
    isinstance_Exception e"
  then show "chat_loop_while w c (Inr line # inputs) =
        chat_loop_while w (emit (Printed (CHR 0x0A # ''Error: '' @ exn_str e)) c2) inputs"
    by (simp add: Let_def error_line_def)
next
  assume "isinstance_Exception e"
  then show "chat_loop_while w c (Inl e # inputs) =
        chat_loop_while w
          (emit (Printed (CHR 0x0A # ''Error: '' @ exn_str e)) (emit (Prompted query_prompt) c))
          inputs"
    by (simp add: Let_def error_line_def)
next
  assume "fst (chat_loop w c console) = Returned"
  then show "\<exists>l. Inr l \<in> set console \<and> str_lower (str_strip l) = ''quit''"
    unfolding chat_loop_def by (rule chat_loop_while_returned)
next
  assume "fst (chat_loop w c console) = Raised e'"
  then show "\<not> isinstance_Exception e'"
    unfolding chat_loop_def by (rule chat_loop_while_raised)
next
  assume "raises_only_errors w \<and>
       (\<forall>x. Inl x \<in> set console \<longrightarrow> isinstance_Exception x) \<and>
       (\<forall>l. Inr l \<in> set console \<longrightarrow> str_lower (str_strip l) \<noteq> ''quit'')"
  then show "fst (chat_loop w c console) = Blocked"
    unfolding chat_loop_def by (intro chat_loop_while_goes_on) blast+
qed


theorem chat_loop_survives_errors_witness:
  "str_lower (str_strip ''tell me a joke'') \<noteq> ''quit'' \<and>
   process_query demo_world (emit (Prompted query_prompt) demo_client) (str_strip ''tell me a joke'')
     = (Inl (Exn OtherException ''Failed to connect to Ollama''),
        emit (ChatCalled ''llama3.2:latest'' [\<lparr>role = ''user'', content = ''tell me a joke''\<rparr>])
          (emit (Prompted query_prompt) demo_client)) \<and>
   isinstance_Exception (Exn OtherException ''Failed to connect to Ollama'') \<and>
   chat_loop_while demo_world demo_client [Inr ''tell me a joke'', Inr ''quit''] =
     (Returned,
      demo_client\<lparr>trace :=
        [Prompted query_prompt,
         ChatCalled ''llama3.2:latest'' [\<lparr>role = ''user'', content = ''tell me a joke''\<rparr>],
         Printed (CHR 0x0A # ''Error: Failed to connect to Ollama''),
         Prompted query_prompt]\<rparr>) \<and>
   fst (chat_loop demo_world demo_client [Inr ''tell me a joke'', Inr ''quit'']) = Returned \<and>
   (\<exists>l. Inr l \<in> set [Inr ''tell me a joke'', Inr ''quit'' :: exn + string] \<and> str_lower (str_strip l) = ''quit'') \<and>
   fst (chat_loop demo_world demo_client
          [Inl (Exn OtherException ''EOF when reading a line''),
           Inl (Exn OtherBaseException ''KeyboardInterrupt'')])
     = Raised (Exn OtherBaseException ''KeyboardInterrupt'') \<and>
   \<not> isinstance_Exception (Exn OtherBaseException ''KeyboardInterrupt'') \<and>
   fst (chat_loop demo_world demo_client
          [Inr ''tell me a joke'', Inl (Exn OtherException ''EOF when reading a line'')]) = Blocked"
proof -
  let ?e = "Exn OtherException ''Failed to connect to Ollama''"
  let ?c2 = "emit (ChatCalled ''llama3.2:latest'' [\<lparr>role = ''user'', content = ''tell me a joke''\<rparr>])
          (emit (Prompted query_prompt) demo_client)"
  have h1: "str_lower (str_strip ''tell me a joke'') \<noteq> ''quit''"
    by (simp add: str_eval)
  have strip: "str_strip ''tell me a joke'' = ''tell me a joke''"
    by (simp add: str_eval)
  have h2: "process_query demo_world (emit (Prompted query_prompt) demo_client)
       (str_strip ''tell me a joke'') = (Inl ?e, ?c2)"
    unfolding strip by (simp add: process_query_def Let_def str_eval demo_world_def)
  have h3: "isinstance_Exception ?e" by simp
  have quit: "str_lower (str_strip ''quit'') = ''quit''" by (simp add: str_eval)
  note T = chat_loop_survives_errors [where w = demo_world and c = demo_client]
  from T [of "''tell me a joke''" ?e ?c2 "[Inr ''quit'']", THEN conjunct1, rule_format,
          OF conjI, OF h1 conjI, OF h2 h3]
  have w1: "chat_loop_while demo_world demo_client [Inr ''tell me a joke'', Inr ''quit''] =
     (Returned,
      demo_client\<lparr>trace :=
        [Prompted query_prompt,
         ChatCalled ''llama3.2:latest'' [\<lparr>role = ''user'', content = ''tell me a joke''\<rparr>],
         Printed (CHR 0x0A # ''Error: Failed to connect to Ollama''),
         Prompted query_prompt]\<rparr>)"
    using quit by (simp add: Let_def emit_def demo_client_def)
  have r: "fst (chat_loop demo_world demo_client [Inr ''tell me a joke'', Inr ''quit'']) = Returned"
    using h1 h2 quit unfolding chat_loop_def strip
    by (simp add: Let_def str_eval process_query_def demo_world_def emit_def)
  from T [of _ _ _ _ "[Inr ''tell me a joke'', Inr ''quit'']",
          THEN conjunct2, THEN conjunct2, THEN conjunct1, rule_format, OF r]
  have w3: "\<exists>l. Inr l \<in> set [Inr ''tell me a joke'', Inr ''quit'' :: exn + string] \<and>
     str_lower (str_strip l) = ''quit''" .
  have k: "fst (chat_loop demo_world demo_client
          [Inl (Exn OtherException ''EOF when reading a line''),
           Inl (Exn OtherBaseException ''KeyboardInterrupt'')])
     = Raised (Exn OtherBaseException ''KeyboardInterrupt'')"
    by (simp add: chat_loop_def Let_def)
  from T [THEN conjunct2, THEN conjunct2, THEN conjunct2, THEN conjunct1, rule_format, OF k]
  have w4: "\<not> isinstance_Exception (Exn OtherBaseException ''KeyboardInterrupt'')" .
  have g1: "raises_only_errors demo_world"
    by (simp add: raises_only_errors_def demo_world_def)
  have g2: "\<forall>x. Inl x \<in> set [Inr ''tell me a joke'',
        Inl (Exn OtherException ''EOF when reading a line'')] \<longrightarrow> isinstance_Exception x"
    by simp
  have g3: "\<forall>l. Inr l \<in> set [Inr ''tell me a joke'',
        Inl (Exn OtherException ''EOF when reading a line'')] \<longrightarrow>
      str_lower (str_strip l) \<noteq> ''quit''"
    using h1 by simp
  from T [of _ _ _ _ "[Inr ''tell me a joke'', Inl (Exn OtherException ''EOF when reading a line'')]",
          THEN conjunct2, THEN conjunct2, THEN conjunct2, THEN conjunct2, rule_format,
          OF conjI, OF g1 conjI, OF g2 g3]
  have w5: "fst (chat_loop demo_world demo_client
          [Inr ''tell me a joke'', Inl (Exn OtherException ''EOF when reading a line'')]) = Blocked" .
  from h1 h2 h3 w1 r w3 k w4 w5 show ?thesis by blast
qed

text \<open>
  Without the restriction to \<open>Exception\<close> this fails: when the remote call of a turn
  is cancelled, the exception leaves the loop although no line was the quit command.
\<close>

theorem chat_loop_cancelled:
  "str_lower (str_strip ''weather alert in ca'') \<noteq> ''quit'' \<and>
   str_lower (str_strip ''tell me a joke'') \<noteq> ''quit'' \<and>
   chat_loop cancel_world demo_client [Inr ''weather alert in ca'', Inr ''tell me a joke''] =
     (Raised (Exn OtherBaseException ''shutdown''),
      demo_client\<lparr>trace :=
        [Printed (CHR 0x0A # ''MCP Client Started!''),
         Printed (''Type your queries or '' @ [CHR 0x27] @ ''quit'' @ [CHR 0x27] @ '' to exit.''),
         Prompted query_prompt,
         ToolCalled ''get_alerts'' [(''state'', PStr (map Latin1 ''CA''))]]\<rparr>)"
proof -
  have h1: "str_lower (str_strip ''weather alert in ca'') \<noteq> ''quit''"
    by (simp add: str_eval)
  have h2: "str_lower (str_strip ''tell me a joke'') \<noteq> ''quit''"
    by (simp add: str_eval)
  have strip: "str_strip ''weather alert in ca'' = ''weather alert in ca''"
    by (simp add: str_eval)
  have pq: "process_query cancel_world c ''weather alert in ca'' =
      call_mcp_tool cancel_world c ''get_alerts'' [(''state'', PStr (map Latin1 ''CA''))]" for c
    by (simp add: process_query_def str_eval)
  have "chat_loop cancel_world demo_client [Inr ''weather alert in ca'', Inr ''tell me a joke''] =
     (Raised (Exn OtherBaseException ''shutdown''),
      demo_client\<lparr>trace :=
        [Printed (CHR 0x0A # ''MCP Client Started!''),
         Printed (''Type your queries or '' @ [CHR 0x27] @ ''quit'' @ [CHR 0x27] @ '' to exit.''),
         Prompted query_prompt,
         ToolCalled ''get_alerts'' [(''state'', PStr (map Latin1 ''CA''))]]\<rparr>)"
    using h1 unfolding chat_loop_def
    apply (simp add: Let_def strip pq)
    apply (simp add: call_mcp_tool_def cancel_world_def demo_eval query_prompt_def)
    done
  with h1 h2 show ?thesis by blast
qed



text \<open>
  C9. An input line that is "quit" up to letter case (and surrounding white space) ends
  the loop: the only effect of that turn is the prompt, neither the router nor a tool nor
  the chat model is used. Whenever \<open>main\<close>, started with a server path, comes to an
  end, by a normal return or by an exception out of startup or out of the loop, the
  session has been closed exactly once.
\<close>

theorem quit_ends_loop_and_session_closes_once:
  "(str_lower (str_strip line) = ''quit'' \<longrightarrow>
      chat_loop_while w c (Inr line # inputs) = (Returned, emit (Prompted query_prompt) c))
   \<and> (2 \<le> length argv \<and> fst (main w argv console) \<noteq> Blocked \<longrightarrow>
      count_list (trace (snd (main w argv console))) SessionClosed = 1)"
  using main_closes_once[of argv w console] by (simp add: Let_def)

theorem quit_ends_loop_and_session_closes_once_witness:
  "str_lower (str_strip ''QUIT'') = ''quit'' \<and>
   chat_loop_while demo_world demo_client [Inr ''QUIT'', Inr ''tell me a joke''] =
     (Returned, emit (Prompted query_prompt) demo_client) \<and>
   2 \<le> length [''client.py'', ''weather.py''] \<and>
   main demo_world [''client.py'', ''weather.py''] [Inr ''weather alert in ca'', Inr ''Quit'']
     = (Returned,
        \<lparr>available_tools = available_tools demo_client,
         trace =
           [SessionStarted ''weather.py'',
            ToolsPrinted [''get_alerts'', ''get_forecast''],
            Printed (CHR 0x0A # ''MCP Client Started!''),
            Printed (''Type your queries or '' @ [CHR 0x27] @ ''quit'' @ [CHR 0x27] @ '' to exit.''),
            Prompted query_prompt,
            ToolCalled ''get_alerts'' [(''state'', PStr (map Latin1 ''CA''))],
            Printed (CHR 0x0A # ''Event: Flood Watch'' @ [CHR 0x0A] @ ''Area: Sacramento'' @ [CHR 0x0A] @
         ''Severity: Moderate''),
            Prompted query_prompt,
            SessionClosed]\<rparr>) \<and>
   count_list (trace (snd (main demo_world [''client.py'', ''weather.py'']
        [Inr ''weather alert in ca'', Inr ''Quit'']))) (SessionClosed :: string event) = 1 \<and>
   fst (main demo_world [''client.py'', ''notes.txt''] []) =
     Raised (Exn ValueError ''Server script must be a Python (.py) file'') \<and>
   count_list (trace (snd (main demo_world [''client.py'', ''notes.txt''] [])))
     (SessionClosed :: string event) = 1"
proof -
  have q: "str_lower (str_strip ''QUIT'') = ''quit''" by (simp add: str_eval)
  note T = quit_ends_loop_and_session_closes_once [where w = demo_world]
  from T [of "''QUIT''" demo_client "[Inr ''tell me a joke'']", THEN conjunct1, rule_format, OF q]
  have w1: "chat_loop_while demo_world demo_client [Inr ''QUIT'', Inr ''tell me a joke''] =
     (Returned, emit (Prompted query_prompt) demo_client)" .
  have len: "2 \<le> length [''client.py'', ''weather.py'']" by simp
  have m: "main demo_world [''client.py'', ''weather.py''] [Inr ''weather alert in ca'', Inr ''Quit'']
     = (Returned,
        \<lparr>available_tools = available_tools demo_client,
         trace =
           [SessionStarted ''weather.py'',
            ToolsPrinted [''get_alerts'', ''get_forecast''],
            Printed (CHR 0x0A # ''MCP Client Started!''),
            Printed (''Type your queries or '' @ [CHR 0x27] @ ''quit'' @ [CHR 0x27] @ '' to exit.''),
            Prompted query_prompt,
            ToolCalled ''get_alerts'' [(''state'', PStr (map Latin1 ''CA''))],
            Printed (CHR 0x0A # ''Event: Flood Watch'' @ [CHR 0x0A] @ ''Area: Sacramento'' @ [CHR 0x0A] @
         ''Severity: Moderate''),
            Prompted query_prompt,
            SessionClosed]\<rparr>)"
    by (simp add: main_def connect_to_server_def cleanup_def new_client_def loop_eval
        suffix_to_prefix str_eval demo_eval)
  then have nb: "fst (main demo_world [''client.py'', ''weather.py'']
        [Inr ''weather alert in ca'', Inr ''Quit'']) \<noteq> Blocked" by simp
  from T [of _ _ _ "[''client.py'', ''weather.py'']" "[Inr ''weather alert in ca'', Inr ''Quit'']",
          THEN conjunct2, rule_format, OF conjI, OF len nb]
  have w2: "count_list (trace (snd (main demo_world [''client.py'', ''weather.py'']
        [Inr ''weather alert in ca'', Inr ''Quit'']))) (SessionClosed :: string event) = 1" .
  have f: "fst (main demo_world [''client.py'', ''notes.txt''] []) =
     Raised (Exn ValueError ''Server script must be a Python (.py) file'')"
    by (simp add: main_def connect_to_server_def cleanup_def new_client_def suffix_to_prefix
        demo_eval)
  then have nb2: "fst (main demo_world [''client.py'', ''notes.txt''] []) \<noteq> Blocked" by simp
  have len2: "2 \<le> length [''client.py'', ''notes.txt'']" by simp
  from T [of _ _ _ "[''client.py'', ''notes.txt'']" "[]",
          THEN conjunct2, rule_format, OF conjI, OF len2 nb2]
  have w3: "count_list (trace (snd (main demo_world [''client.py'', ''notes.txt''] [])))
     (SessionClosed :: string event) = 1" .
  from q w1 len m w2 f w3 show ?thesis by blast
qed

end
